theory Spec2Isabelle
  imports Main "HOL-Library.Word"
begin

section \<open>Python values\<close>

text \<open>
  Text is a sequence of Unicode code points (Python's \<open>unicode\<close> / \<open>str\<close>), since
  the currency symbols of \<open>number.py\<close> lie outside ASCII.  \<open>ustr\<close> turns an ASCII
  literal into such a sequence.
\<close>

type_synonym ustring = "nat list"

definition ustr :: "string \<Rightarrow> ustring" where
  "ustr s = map of_char s"

text \<open>
  \<open>decimal.Decimal\<close>: sign, coefficient and exponent of a finite number, or one of
  the special values.
\<close>

datatype decimal =
    Finite (dec_negative: bool) (dec_coefficient: nat) (dec_exponent: int)
  | Infinity bool
  | NaN

text \<open>
  The values \<open>Number.cast\<close> can be handed.  A float is the 64 bits of its IEEE
  double; \<open>PObject\<close> stands for an object of any other class, told apart by an
  identity, whose \<open>str()\<close> does not raise.
\<close>

datatype pyval =
    PNone
  | PBool bool
  | PInt int
  | PFloat "64 word"
  | PDecimal decimal
  | PStr ustring
  | PTuple "pyval list"
  | PObject nat

text \<open>
  Exceptions as values.  \<open>CastError\<close> carries what its message was built from:
  the fixed float message, or the value substituted for \<open>%s\<close> in
  \<open>'Can not parse value "%s" as Decimal.'\<close>.  \<open>ValueError\<close> carries its message, and
  \<open>Raised\<close> is any exception of another class, as an aggregation or a table method
  may raise.
\<close>

datatype cast_message = FloatMessage | ParseMessage pyval

datatype error =
    CastError cast_message
  | TypeError
  | IndexError
  | AttributeError
  | ValueError ustring
  | ColumnDoesNotExistError ustring
  | NumberFormatError
  | UnknownLocaleError
  | Raised ustring

section \<open>String methods used by \<open>number.py\<close>\<close>

text \<open>
  \<open>str.isspace\<close> on one code point: the Unicode white space characters.
\<close>

definition isspace :: "nat \<Rightarrow> bool" where
  "isspace c \<longleftrightarrow>
     (9 \<le> c \<and> c \<le> 13) \<or> (28 \<le> c \<and> c \<le> 32) \<or> c = 133 \<or> c = 160 \<or> c = 5760 \<or>
     (8192 \<le> c \<and> c \<le> 8202) \<or> c = 8232 \<or> c = 8233 \<or> c = 8239 \<or> c = 8287 \<or> c = 12288"

text \<open>\<open>d.strip()\<close>: every leading and every trailing white space character goes.\<close>

definition strip :: "ustring \<Rightarrow> ustring" where
  "strip d = rev (dropWhile isspace (rev (dropWhile isspace d)))"

text \<open>
  \<open>d.strip(chars)\<close>: the argument is a set of characters; every leading and every
  trailing character of \<open>d\<close> that belongs to it goes.
\<close>

definition strip_chars :: "ustring \<Rightarrow> ustring \<Rightarrow> ustring" where
  "strip_chars chars d =
     rev (dropWhile (\<lambda>c. c \<in> set chars) (rev (dropWhile (\<lambda>c. c \<in> set chars) d)))"

text \<open>
  \<open>d.lower()\<close> follows the case mappings of Unicode, a table of the Python
  run-time that is not reproduced here.  \<open>test\<close> and \<open>cast\<close> therefore take the
  method as an argument, and what is proved of them holds for every such function.
  On text of ASCII characters the method is \<open>ascii_lower\<close>, which is what the
  examples are evaluated with; \<open>lowers_ascii\<close> says of a function that it agrees
  with \<open>d.lower()\<close> there.
\<close>

type_synonym lowercase = "ustring \<Rightarrow> ustring"

definition lower_char :: "nat \<Rightarrow> nat" where
  "lower_char c = (if 65 \<le> c \<and> c \<le> 90 then c + 32 else c)"

definition ascii_lower :: lowercase where
  "ascii_lower d = map lower_char d"

definition is_ascii :: "ustring \<Rightarrow> bool" where
  "is_ascii d \<longleftrightarrow> list_all (\<lambda>c. c < 128) d"

definition lowers_ascii :: "lowercase \<Rightarrow> bool" where
  "lowers_ascii lower \<longleftrightarrow> (\<forall>d. is_ascii d \<longrightarrow> lower d = ascii_lower d)"

section \<open>\<open>agate/data_types/number.py\<close>\<close>

text \<open>
  The currency symbols, in the order of the source:
  U+060B, \<open>$\<close>, U+0192, U+17DB, U+00A5, U+20A1, U+20B1, U+00A3, U+20AC, U+00A2,
  U+FDFC, U+20AA, U+20A9, U+20AD, U+20AE, U+20A6, U+0E3F, U+20A4, U+20AB.
  Each symbol is a string of one code point.
\<close>

definition CURRENCY_SYMBOLS :: "ustring list" where
  "CURRENCY_SYMBOLS =
     [ [1547], [36], [402], [6107], [165], [8353], [8369], [163], [8364], [162],
      [65020], [8362], [8361], [8365], [8366], [8358], [3647], [8356], [8363] ]"

text \<open>
  A \<open>Number\<close> instance: its locale (\<open>_locale\<close>), and the \<open>null_values\<close> it
  inherits from \<open>DataType\<close>, the configured set of null strings of the spec.
\<close>

record number =
  number_locale :: ustring
  null_values :: "ustring list"

text \<open>
  \<open>babel.numbers.parse_decimal\<close> belongs to another package, so \<open>test\<close> and
  \<open>cast\<close> take it as an argument too: a function of the locale and the value that
  returns the decimal or the exception it raised.
\<close>

type_synonym parser = "ustring \<Rightarrow> pyval \<Rightarrow> error + decimal"

text \<open>
  The text \<open>test\<close> hands to the null check and the parser: white space stripped,
  then \<open>strip('%')\<close>, then \<open>strip(symbol)\<close> for each currency symbol in turn.
\<close>

definition test_stripped :: "ustring \<Rightarrow> ustring" where
  "test_stripped d = fold strip_chars CURRENCY_SYMBOLS (strip_chars (ustr ''%'') (strip d))"

text \<open>
  The characters \<open>test\<close> strips from the ends after the white space: the percent
  sign and the currency symbols.
\<close>

definition percent_or_currency :: "nat \<Rightarrow> bool" where
  "percent_or_currency c \<longleftrightarrow> c \<in> set (concat (ustr ''%'' # CURRENCY_SYMBOLS))"

text \<open>
  Following the words of the specification, not the source: ``strip a single
  leading/trailing percent sign if present''.  It is here only to be compared with
  what \<open>strip('%')\<close> does.
\<close>

definition spec_strip_single_percent :: "ustring \<Rightarrow> ustring" where
  "spec_strip_single_percent d =
     (let d1 = (case d of [] \<Rightarrow> [] | c # r \<Rightarrow> if [c] = ustr ''%'' then r else d)
      in if d1 \<noteq> [] \<and> [last d1] = ustr ''%'' then butlast d1 else d1)"

definition Number_test :: "lowercase \<Rightarrow> parser \<Rightarrow> number \<Rightarrow> ustring \<Rightarrow> bool" where
  "Number_test lower parse_decimal self d =
     (let d = test_stripped d in
      if lower d \<in> set (null_values self) then True
      else (case parse_decimal (number_locale self) (PStr d) of
              Inr _ \<Rightarrow> True
            | Inl _ \<Rightarrow> False))"

text \<open>
  \<open>fmt % d\<close> for a format with one \<open>%s\<close>: a tuple on the right is the argument
  list, so it must have exactly one element, which is then the value shown; anything
  else is shown itself.
\<close>

fun format_arg :: "pyval \<Rightarrow> error + pyval" where
  "format_arg (PTuple [x]) = Inr x"
| "format_arg (PTuple _) = Inl TypeError"
| "format_arg d = Inr d"

text \<open>
  The last two lines of \<open>cast\<close>: the parse, and the handler that catches whatever
  it raised and builds the \<open>CastError\<close>.
\<close>

definition cast_parse :: "parser \<Rightarrow> number \<Rightarrow> pyval \<Rightarrow> error + decimal option" where
  "cast_parse parse_decimal self d =
     (case parse_decimal (number_locale self) d of
        Inr v \<Rightarrow> Inr (Some v)
      | Inl _ \<Rightarrow>
          (case format_arg d of
             Inl e \<Rightarrow> Inl e
           | Inr shown \<Rightarrow> Inl (CastError (ParseMessage shown))))"

text \<open>
  \<open>cast\<close> returns a decimal or \<open>None\<close>.  \<open>bool\<close> is a subclass of \<open>int\<close>, so a
  boolean takes the integer branch.
\<close>

fun Decimal_of_int :: "int \<Rightarrow> decimal" where
  "Decimal_of_int n = Finite (n < 0) (nat \<bar>n\<bar>) 0"

fun Number_cast :: "lowercase \<Rightarrow> parser \<Rightarrow> number \<Rightarrow> pyval \<Rightarrow> error + decimal option" where
  "Number_cast lower parse_decimal self (PDecimal v) = Inr (Some v)"
| "Number_cast lower parse_decimal self PNone = Inr None"
| "Number_cast lower parse_decimal self (PInt n) = Inr (Some (Decimal_of_int n))"
| "Number_cast lower parse_decimal self (PBool b) =
     Inr (Some (Decimal_of_int (if b then 1 else 0)))"
| "Number_cast lower parse_decimal self (PFloat x) = Inl (CastError FloatMessage)"
| "Number_cast lower parse_decimal self (PStr d) =
     (let d = strip d in
      if lower d \<in> set (null_values self) then Inr None
      else cast_parse parse_decimal self (PStr d))"
| "Number_cast lower parse_decimal self d = cast_parse parse_decimal self d"

section \<open>The parser of the \<open>babel\<close> package\<close>

text \<open>
  Modelled from the spec: the locale-aware decimal parse, ``handling locale-specific
  grouping and decimal separators'', is \<open>babel.numbers.parse_decimal\<close> on top of
  \<open>decimal.Decimal\<close>; neither is under the sources.  They are needed only to
  evaluate \<open>test\<close> and \<open>cast\<close> on concrete text, and follow the documented
  behaviour of the two libraries: \<open>parse_decimal\<close> looks the locale up, removes its
  group symbol, turns its decimal symbol into a point and hands the text to
  \<open>Decimal\<close>, whose \<open>InvalidOperation\<close> it turns into a \<open>NumberFormatError\<close>;
  \<open>Decimal\<close> strips white space and accepts an optional sign followed by digits
  with an optional point and an optional exponent, or by \<open>Inf\<close>, \<open>Infinity\<close>,
  \<open>NaN\<close> or \<open>sNaN\<close> with optional digits, in either case of the ASCII letters.  The
  model knows the symbols of two locales and the ASCII digits only.
\<close>

definition locale_symbols :: "ustring \<Rightarrow> (nat \<times> nat) option" where
  "locale_symbols l =
     (if l = ustr ''en_US'' then Some (44, 46)
      else if l = ustr ''de_DE'' then Some (46, 44)
      else None)"

definition replace_char :: "nat \<Rightarrow> ustring \<Rightarrow> ustring \<Rightarrow> ustring" where
  "replace_char old new s = concat (map (\<lambda>c. if c = old then new else [c]) s)"

definition is_digit :: "nat \<Rightarrow> bool" where
  "is_digit c \<longleftrightarrow> 48 \<le> c \<and> c \<le> 57"

definition digits_value :: "ustring \<Rightarrow> nat" where
  "digits_value ds = foldl (\<lambda>n c. 10 * n + (c - 48)) 0 ds"

definition split_sign :: "ustring \<Rightarrow> bool \<times> ustring" where
  "split_sign s =
     (case s of
        [] \<Rightarrow> (False, [])
      | c # r \<Rightarrow> if c = 45 then (True, r) else if c = 43 then (False, r) else (False, s))"

definition parse_exponent :: "ustring \<Rightarrow> int option" where
  "parse_exponent s =
     (case s of
        [] \<Rightarrow> Some 0
      | c # r \<Rightarrow>
          if c = 101 \<or> c = 69 then
            (let (neg, ds) = split_sign r in
             if ds \<noteq> [] \<and> list_all is_digit ds
             then Some (if neg then - int (digits_value ds) else int (digits_value ds))
             else None)
          else None)"

definition parse_special :: "bool \<Rightarrow> ustring \<Rightarrow> decimal option" where
  "parse_special neg s =
     (let l = ascii_lower s in
      if l = ustr ''inf'' \<or> l = ustr ''infinity'' then Some (Infinity neg)
      else if take 3 l = ustr ''nan'' \<and> list_all is_digit (drop 3 l) then Some NaN
      else if take 4 l = ustr ''snan'' \<and> list_all is_digit (drop 4 l) then Some NaN
      else None)"

definition Decimal_of_string :: "ustring \<Rightarrow> decimal option" where
  "Decimal_of_string s =
     (let (neg, r) = split_sign (strip s);
          int_part = takeWhile is_digit r;
          r1 = dropWhile is_digit r;
          (frac_part, r2) =
            (case r1 of
               [] \<Rightarrow> ([], [])
             | c # r' \<Rightarrow>
                 if c = 46 then (takeWhile is_digit r', dropWhile is_digit r') else ([], r1))
      in if int_part = [] \<and> frac_part = [] then parse_special neg r
         else (case parse_exponent r2 of
                 None \<Rightarrow> None
               | Some e \<Rightarrow>
                   Some (Finite neg (digits_value (int_part @ frac_part))
                           (e - int (length frac_part)))))"

fun parse_decimal :: parser where
  "parse_decimal l (PStr s) =
     (case locale_symbols l of
        None \<Rightarrow> Inl UnknownLocaleError
      | Some (group_symbol, decimal_symbol) \<Rightarrow>
          (case Decimal_of_string
                  (replace_char decimal_symbol [46] (replace_char group_symbol [] s)) of
             None \<Rightarrow> Inl NumberFormatError
           | Some v \<Rightarrow> Inr v))"
| "parse_decimal l d =
     (case locale_symbols l of
        None \<Rightarrow> Inl UnknownLocaleError
      | Some _ \<Rightarrow> Inl AttributeError)"

text \<open>
  A \<open>Number\<close> for the locale \<open>en_US\<close> whose null values are the empty string,
  \<open>na\<close>, \<open>n/a\<close>, \<open>none\<close>, \<open>null\<close> and a single point.
\<close>

definition number_en_US :: number where
  "number_en_US =
     \<lparr>number_locale = ustr ''en_US'',
      null_values = [ [], ustr ''na'', ustr ''n/a'', ustr ''none'', ustr ''null'', ustr ''.'']\<rparr>"

section \<open>Tables\<close>

text \<open>
  Modelled from the spec: the \<open>DataType\<close> hierarchy is not under the sources,
  apart from \<open>Number\<close>.  These are the instances that type a column; two of them
  are equal here exactly when Python's comparison of the two objects says so.
\<close>

datatype data_type = Text | Number | Boolean | Date | DateTime | TimeDelta

text \<open>
  Modelled from the spec: \<open>Table\<close>, \<open>Column\<close> and \<open>Aggregation\<close> are not in
  the sources at hand.  A table is an ordered sequence of named, typed columns plus
  an ordered sequence of rows; \<open>get_column_names\<close> and \<open>get_column_types\<close> return
  the attributes \<open>_column_names\<close> and \<open>_column_types\<close>.
\<close>

record table =
  column_names :: "ustring list"
  column_types :: "data_type list"
  rows :: "pyval list list"

text \<open>
  Modelled from the spec: a column is a view of one index of its table (as in
  \<open>NumberColumn(table, index)\<close>), and \<open>table.columns[name]\<close> finds it by name or
  raises when the table has no such column.
\<close>

record column =
  column_table :: table
  column_index :: nat

fun index_of :: "ustring \<Rightarrow> ustring list \<Rightarrow> nat option" where
  "index_of name [] = None"
| "index_of name (n # ns) =
     (if n = name then Some 0 else map_option Suc (index_of name ns))"

definition columns_getitem :: "table \<Rightarrow> ustring \<Rightarrow> error + column" where
  "columns_getitem t name =
     (case index_of name (column_names t) of
        None \<Rightarrow> Inl (ColumnDoesNotExistError name)
      | Some i \<Rightarrow> Inr \<lparr>column_table = t, column_index = i\<rparr>)"

text \<open>
  Modelled from the spec: an aggregation operator exposes
  \<open>get_aggregate_column_type(column)\<close> and the computation of its value on a
  column, which \<open>column.aggregate(aggregation)\<close> runs; either may raise.
\<close>

record aggregation =
  get_aggregate_column_type :: "column \<Rightarrow> error + data_type"
  run :: "column \<Rightarrow> error + pyval"

definition Column_aggregate :: "column \<Rightarrow> aggregation \<Rightarrow> error + pyval" where
  "Column_aggregate c a = run a c"

text \<open>
  Modelled from the spec: the casts of the column types other than \<open>Number\<close> are
  not under the sources.  Every \<open>DataType\<close> exposes \<open>cast(value)\<close>, which returns
  the typed value or fails, ``used polymorphically for every column type''; the
  construction of a table takes it as an argument, a function of the column type
  and the cell.
\<close>

type_synonym caster = "data_type \<Rightarrow> pyval \<Rightarrow> error + pyval"

text \<open>
  Modelled from the spec: \<open>_fork(rows, column_info)\<close> constructs a new table from
  raw rows plus a schema of (name, type) pairs, under the construction contract of
  every table: the names of the columns are unique within the table, a row has one
  cell per column, and each cell is cast by the type of its column.  Construction
  fails with a \<open>ValueError\<close> on a repeated name or on a row of another length, and
  with whatever the first failing cast raises.  The spec does not give the texts of
  the two messages; they are named here.
\<close>

definition duplicate_names_message :: ustring where
  "duplicate_names_message = ustr ''Duplicate column names are not allowed.''"

definition row_length_message :: ustring where
  "row_length_message = ustr ''Row length differs from the number of columns.''"

fun cast_cells :: "caster \<Rightarrow> (data_type \<times> pyval) list \<Rightarrow> error + pyval list" where
  "cast_cells cast [] = Inr []"
| "cast_cells cast ((ty, d) # rest) =
     (case cast ty d of
        Inl e \<Rightarrow> Inl e
      | Inr v \<Rightarrow>
          (case cast_cells cast rest of
             Inl e \<Rightarrow> Inl e
           | Inr vs \<Rightarrow> Inr (v # vs)))"

fun cast_rows :: "caster \<Rightarrow> data_type list \<Rightarrow> pyval list list \<Rightarrow> error + pyval list list" where
  "cast_rows cast types [] = Inr []"
| "cast_rows cast types (row # rest) =
     (if length row \<noteq> length types then Inl (ValueError row_length_message)
      else (case cast_cells cast (zip types row) of
              Inl e \<Rightarrow> Inl e
            | Inr r \<Rightarrow>
                (case cast_rows cast types rest of
                   Inl e \<Rightarrow> Inl e
                 | Inr rs \<Rightarrow> Inr (r # rs))))"

definition Table_fork ::
  "caster \<Rightarrow> table \<Rightarrow> pyval list list \<Rightarrow> (ustring \<times> data_type) list \<Rightarrow> error + table" where
  "Table_fork cast self new_rows column_info =
     (let names = map fst column_info; types = map snd column_info in
      if \<not> distinct names then Inl (ValueError duplicate_names_message)
      else (case cast_rows cast types new_rows of
              Inl e \<Rightarrow> Inl e
            | Inr data \<Rightarrow>
                Inr \<lparr>column_names = names, column_types = types, rows = data\<rparr>))"

section \<open>\<open>agate/tableset.py\<close>\<close>

text \<open>
  A member of a table set is a \<open>Table\<close> or another \<open>TableSet\<close>.  A \<open>TableSet\<close>
  object holds \<open>_key_name\<close>, \<open>_key_type\<close>, \<open>_sample_table\<close>, \<open>_column_types\<close>,
  \<open>_column_names\<close> and \<open>_tables\<close>; the ordered dictionary \<open>_tables\<close> is the list of
  its items in iteration order.
\<close>

datatype member = IsTable table | IsTableSet tableset
and tableset =
  TableSet (key_name: ustring) (key_type: data_type) (sample_table: table)
    (set_column_types: "data_type list") (set_column_names: "ustring list")
    (tables: "(pyval \<times> member) list")

type_synonym group = "(pyval \<times> member) list"

text \<open>
  \<open>table._column_types\<close> and \<open>table._column_names\<close> in the loop of \<open>__init__\<close>:
  both classes have the attributes.
\<close>

fun member_column_types :: "member \<Rightarrow> data_type list" where
  "member_column_types (IsTable t) = column_types t"
| "member_column_types (IsTableSet s) = set_column_types s"

fun member_column_names :: "member \<Rightarrow> ustring list" where
  "member_column_names (IsTable t) = column_names t"
| "member_column_names (IsTableSet s) = set_column_names s"

text \<open>
  The \<open>while\<close> loop of \<open>__init__\<close>: as long as the sample is a \<open>TableSet\<close>, take
  the first of its values; \<open>list(...)[0]\<close> raises \<open>IndexError\<close> on an empty list.
\<close>

fun resolve_sample :: "member \<Rightarrow> error + table" where
  "resolve_sample (IsTable t) = Inr t"
| "resolve_sample (IsTableSet (TableSet kn kt st cts cns [])) = Inl IndexError"
| "resolve_sample (IsTableSet (TableSet kn kt st cts cns ((k, m) # ms))) = resolve_sample m"

definition types_message :: ustring where
  "types_message = ustr ''Not all tables have the same column types!''"

definition names_message :: ustring where
  "names_message = ustr ''Not all tables have the same column names!''"

text \<open>The \<open>for\<close> loop of \<open>__init__\<close>; \<open>None\<close> when it runs to its end.\<close>

fun check_members :: "data_type list \<Rightarrow> ustring list \<Rightarrow> group \<Rightarrow> error option" where
  "check_members cts cns [] = None"
| "check_members cts cns ((name, t) # rest) =
     (if member_column_types t \<noteq> cts then Some (ValueError types_message)
      else if member_column_names t \<noteq> cns then Some (ValueError names_message)
      else check_members cts cns rest)"

definition default_key_name :: ustring where
  "default_key_name = ustr ''group''"

text \<open>
  \<open>TableSet.__init__(group, key_name, key_type)\<close>; \<open>key_type\<close> is \<open>None\<close> when the
  caller leaves it out.
\<close>

definition TableSet_init :: "group \<Rightarrow> ustring \<Rightarrow> data_type option \<Rightarrow> error + tableset" where
  "TableSet_init grp kn kt =
     (case grp of
        [] \<Rightarrow> Inl IndexError
      | (k0, m0) # _ \<Rightarrow>
          (case resolve_sample m0 of
             Inl e \<Rightarrow> Inl e
           | Inr sample \<Rightarrow>
               (case check_members (column_types sample) (column_names sample) grp of
                  Some e \<Rightarrow> Inl e
                | None \<Rightarrow>
                    Inr (TableSet kn (case kt of None \<Rightarrow> Text | Some t \<Rightarrow> t) sample
                           (column_types sample) (column_names sample) grp))))"

text \<open>\<open>__iter__\<close>: the keys of \<open>_tables\<close>, in its order.\<close>

definition TableSet_iter :: "tableset \<Rightarrow> pyval list" where
  "TableSet_iter self = map fst (tables self)"

subsection \<open>Aggregation\<close>

type_synonym aggregations = "(ustring \<times> aggregation \<times> ustring) list"

type_synonym aggregated = "ustring list \<times> data_type list \<times> pyval list list"

text \<open>
  ``Regular Tables'', first loop: the names and types appended to
  \<open>[self._key_name]\<close> and \<open>[self._key_type]\<close>, one per aggregation, derived on the
  sample table.
\<close>

fun aggregate_columns :: "table \<Rightarrow> aggregations \<Rightarrow> error + (ustring list \<times> data_type list)" where
  "aggregate_columns sample [] = Inr ([], [])"
| "aggregate_columns sample ((column_name, agg, new_column_name) # rest) =
     (case columns_getitem sample column_name of
        Inl e \<Rightarrow> Inl e
      | Inr c \<Rightarrow>
          (case get_aggregate_column_type agg c of
             Inl e \<Rightarrow> Inl e
           | Inr ty \<Rightarrow>
               (case aggregate_columns sample rest of
                  Inl e \<Rightarrow> Inl e
                | Inr (ns, tys) \<Rightarrow> Inr (new_column_name # ns, ty # tys))))"

text \<open>
  ``Regular Tables'', inner loop: the values appended to \<open>[name]\<close> for one member.
  \<open>table.columns\<close> is an attribute of a \<open>Table\<close> only.
\<close>

fun aggregate_values :: "member \<Rightarrow> aggregations \<Rightarrow> error + pyval list" where
  "aggregate_values m [] = Inr []"
| "aggregate_values (IsTableSet s) (a # rest) = Inl AttributeError"
| "aggregate_values (IsTable t) ((column_name, agg, new_column_name) # rest) =
     (case columns_getitem t column_name of
        Inl e \<Rightarrow> Inl e
      | Inr c \<Rightarrow>
          (case Column_aggregate c agg of
             Inl e \<Rightarrow> Inl e
           | Inr v \<Rightarrow>
               (case aggregate_values (IsTable t) rest of
                  Inl e \<Rightarrow> Inl e
                | Inr vs \<Rightarrow> Inr (v # vs))))"

text \<open>``Regular Tables'', outer loop: one row per member, appended to \<open>output\<close>.\<close>

fun aggregate_rows :: "group \<Rightarrow> aggregations \<Rightarrow> pyval list list \<Rightarrow> error + pyval list list" where
  "aggregate_rows [] aggs output = Inr output"
| "aggregate_rows ((name, t) # rest) aggs output =
     (case aggregate_values t aggs of
        Inl e \<Rightarrow> Inl e
      | Inr vs \<Rightarrow> aggregate_rows rest aggs (output @ [name # vs]))"

text \<open>
  \<open>_aggregate\<close>.  The branch is chosen by the class of the first member.  In the
  nested branch the loop keeps the \<open>column_names\<close> and \<open>column_types\<close> of the member
  it aggregated last (they are unbound before its first round, which always happens
  since the list was found non-empty) and appends each nested row, with the key
  put in front, to \<open>output\<close>; a \<open>Table\<close> has no \<open>_aggregate\<close>.
\<close>

fun TableSet__aggregate :: "tableset \<Rightarrow> aggregations \<Rightarrow> error + aggregated"
and nested_loop ::
  "group \<Rightarrow> aggregations \<Rightarrow> ustring list \<times> data_type list \<Rightarrow> pyval list list \<Rightarrow> error + aggregated"
where
  "TableSet__aggregate (TableSet kn kt sample cts cns []) aggs = Inl IndexError"
| "TableSet__aggregate (TableSet kn kt sample cts cns ((k0, IsTableSet s0) # ms)) aggs =
     (case nested_loop ((k0, IsTableSet s0) # ms) aggs ([], []) [] of
        Inl e \<Rightarrow> Inl e
      | Inr (names, types, output) \<Rightarrow> Inr (kn # names, kt # types, output))"
| "TableSet__aggregate (TableSet kn kt sample cts cns ((k0, IsTable t0) # ms)) aggs =
     (case aggregate_columns sample aggs of
        Inl e \<Rightarrow> Inl e
      | Inr (ns, tys) \<Rightarrow>
          (case aggregate_rows ((k0, IsTable t0) # ms) aggs [] of
             Inl e \<Rightarrow> Inl e
           | Inr output \<Rightarrow> Inr (kn # ns, kt # tys, output)))"
| "nested_loop [] aggs cols output = Inr (fst cols, snd cols, output)"
| "nested_loop ((key, IsTable t) # rest) aggs cols output = Inl AttributeError"
| "nested_loop ((key, IsTableSet s) # rest) aggs cols output =
     (case TableSet__aggregate s aggs of
        Inl e \<Rightarrow> Inl e
      | Inr (names, types, nested_output) \<Rightarrow>
          nested_loop rest aggs (names, types) (output @ map ((#) key) nested_output))"

text \<open>
  \<open>aggregate\<close>: the sample table forks the result into a new table, which may fail
  as any construction of a table may.
\<close>

definition TableSet_aggregate :: "caster \<Rightarrow> tableset \<Rightarrow> aggregations \<Rightarrow> error + table" where
  "TableSet_aggregate cast self aggs =
     (case TableSet__aggregate self aggs of
        Inl e \<Rightarrow> Inl e
      | Inr (names, types, output) \<Rightarrow>
          Table_fork cast (sample_table self) output (zip names types))"

subsection \<open>Proxied methods\<close>

text \<open>
  \<open>TableMethodProxy.__call__\<close>.  The method looked up by name, with its arguments,
  is a function of a table that returns a table or a table set, or raises; on a
  member that is itself a \<open>TableSet\<close> the attribute of that name is its own proxy.
  \<open>groups[key] = ...\<close> appends, the keys of a dictionary being distinct.  The new
  \<open>TableSet\<close> is built with \<open>key_name\<close> only.
\<close>

fun TableMethodProxy_call :: "(table \<Rightarrow> error + member) \<Rightarrow> tableset \<Rightarrow> error + tableset"
and proxy_loop :: "(table \<Rightarrow> error + member) \<Rightarrow> group \<Rightarrow> group \<Rightarrow> error + group"
where
  "TableMethodProxy_call method (TableSet kn kt sample cts cns ms) =
     (case proxy_loop method ms [] of
        Inl e \<Rightarrow> Inl e
      | Inr groups \<Rightarrow> TableSet_init groups kn None)"
| "proxy_loop method [] groups = Inr groups"
| "proxy_loop method ((key, IsTable t) # rest) groups =
     (case method t of
        Inl e \<Rightarrow> Inl e
      | Inr r \<Rightarrow> proxy_loop method rest (groups @ [(key, r)]))"
| "proxy_loop method ((key, IsTableSet s) # rest) groups =
     (case TableMethodProxy_call method s of
        Inl e \<Rightarrow> Inl e
      | Inr r \<Rightarrow> proxy_loop method rest (groups @ [(key, IsTableSet r)]))"

section \<open>Example data\<close>

text \<open>
  Three tables of one schema, one whose second column has another name and one
  whose second column has another name and another type; a table set per state
  keyed by county, the set of both keyed by state, and a set keyed by year whose
  key type is \<open>Number\<close>.
\<close>

definition table_la :: table where
  "table_la =
     \<lparr>column_names = [ustr ''name'', ustr ''population''], column_types = [Text, Number],
      rows = [ [PStr (ustr ''a''), PInt 3], [PStr (ustr ''b''), PInt 4] ]\<rparr>"

definition table_sf :: table where
  "table_sf =
     \<lparr>column_names = [ustr ''name'', ustr ''population''], column_types = [Text, Number],
      rows = [ [PStr (ustr ''c''), PInt 5] ]\<rparr>"

definition table_ny :: table where
  "table_ny =
     \<lparr>column_names = [ustr ''name'', ustr ''population''], column_types = [Text, Number],
      rows = [ [PStr (ustr ''d''), PInt 8] ]\<rparr>"

definition table_other :: table where
  "table_other =
     \<lparr>column_names = [ustr ''name'', ustr ''people''], column_types = [Text, Number],
      rows = [ [PStr (ustr ''e''), PInt 1] ]\<rparr>"

definition table_texts :: table where
  "table_texts =
     \<lparr>column_names = [ustr ''name'', ustr ''people''], column_types = [Text, Text],
      rows = [ [PStr (ustr ''f''), PStr (ustr ''g'')] ]\<rparr>"

definition set_CA :: tableset where
  "set_CA =
     TableSet (ustr ''county'') Text table_la [Text, Number] [ustr ''name'', ustr ''population'']
       [(PStr (ustr ''la''), IsTable table_la), (PStr (ustr ''sf''), IsTable table_sf)]"

definition set_NY :: tableset where
  "set_NY =
     TableSet (ustr ''county'') Text table_ny [Text, Number] [ustr ''name'', ustr ''population'']
       [(PStr (ustr ''nyc''), IsTable table_ny)]"

definition set_states :: tableset where
  "set_states =
     TableSet (ustr ''state'') Text table_la [Text, Number] [ustr ''name'', ustr ''population'']
       [(PStr (ustr ''CA''), IsTableSet set_CA), (PStr (ustr ''NY''), IsTableSet set_NY)]"

definition set_years :: tableset where
  "set_years =
     TableSet (ustr ''year'') Number table_la [Text, Number] [ustr ''name'', ustr ''population'']
       [(PInt 2014, IsTable table_la), (PInt 2015, IsTable table_sf)]"

text \<open>An aggregation that counts the rows of the column's table and types it \<open>Number\<close>.\<close>

definition count_rows :: aggregation where
  "count_rows =
     \<lparr>get_aggregate_column_type = (\<lambda>c. Inr Number),
      run = (\<lambda>c. Inr (PInt (int (length (rows (column_table c))))))\<rparr>"

text \<open>\<open>limit(n)\<close> as a method of a table: a new table of its first \<open>n\<close> rows.\<close>

definition limit :: "nat \<Rightarrow> table \<Rightarrow> error + member" where
  "limit n t = Inr (IsTable (t\<lparr>rows := take n (rows t)\<rparr>))"

text \<open>
  The casts the examples need.  A \<open>Number\<close> column casts with \<open>Number.cast\<close> of the
  source, for \<open>en_US\<close>.  Modelled from the spec: \<open>Text\<close> is not under the sources;
  as the spec has it for \<open>Number\<close>, its cast keeps \<open>None\<close>, trims the white space
  of a text and takes a null value to \<open>None\<close>.  For other cells and other types the
  examples define no cast.
\<close>

definition example_cast :: caster where
  "example_cast ty d =
     (case ty of
        Number \<Rightarrow>
          (case Number_cast ascii_lower parse_decimal number_en_US d of
             Inl e \<Rightarrow> Inl e
           | Inr None \<Rightarrow> Inr PNone
           | Inr (Some v) \<Rightarrow> Inr (PDecimal v))
      | Text \<Rightarrow>
          (case d of
             PNone \<Rightarrow> Inr PNone
           | PStr s \<Rightarrow>
               (if ascii_lower (strip s) \<in> set (null_values number_en_US) then Inr PNone
                else Inr (PStr (strip s)))
           | _ \<Rightarrow> Inl (Raised (ustr ''no cast in the examples'')))
      | _ \<Rightarrow> Inl (Raised (ustr ''no cast in the examples'')))"

section \<open>Evaluation and helper lemmas\<close>

lemma ustr_simps: "ustr [] = []" "ustr (c # cs) = of_char c # ustr cs"
  by (simp_all add: ustr_def)

lemmas eval_defs = ustr_simps strip_def strip_chars_def isspace_def ascii_lower_def lower_char_def
  test_stripped_def CURRENCY_SYMBOLS_def locale_symbols_def replace_char_def
  Decimal_of_string_def split_sign_def is_digit_def digits_value_def parse_exponent_def
  parse_special_def number_en_US_def Number_test_def cast_parse_def

lemmas example_defs = table_la_def table_sf_def table_ny_def table_other_def table_texts_def set_CA_def
  set_NY_def set_states_def set_years_def count_rows_def limit_def

subsection \<open>Stripping\<close>

lemma rev_drop_take: "xs = rev (dropWhile P (rev xs)) @ rev (takeWhile P (rev xs))"
  by (metis rev_append rev_rev_ident takeWhile_dropWhile_id)

lemma strip_chars_split:
  "\<exists>pre suf. d = pre @ strip_chars cs d @ suf \<and> set pre \<subseteq> set cs \<and> set suf \<subseteq> set cs"
proof -
  let ?P = "\<lambda>c. c \<in> set cs"
  let ?d1 = "dropWhile ?P d"
  have a: "d = takeWhile ?P d @ ?d1" by simp
  have b: "?d1 = strip_chars cs d @ rev (takeWhile ?P (rev ?d1))"
    unfolding strip_chars_def by (rule rev_drop_take)
  have c: "set (takeWhile ?P d) \<subseteq> set cs"
    using set_takeWhileD by fastforce
  have e: "set (rev (takeWhile ?P (rev ?d1))) \<subseteq> set cs"
    using set_takeWhileD by fastforce
  from a b have "d = takeWhile ?P d @ strip_chars cs d @ rev (takeWhile ?P (rev ?d1))"
    by metis
  with c e show ?thesis by blast
qed

lemma strip_chars_ends:
  assumes "strip_chars cs d \<noteq> []"
  shows "hd (strip_chars cs d) \<notin> set cs" and "last (strip_chars cs d) \<notin> set cs"
proof -
  let ?P = "\<lambda>c. c \<in> set cs"
  let ?d1 = "dropWhile ?P d"
  let ?r = "dropWhile ?P (rev ?d1)"
  have r: "strip_chars cs d = rev ?r" by (simp add: strip_chars_def)
  with assms have ne: "?r \<noteq> []" by simp
  then have "\<not> ?P (hd ?r)" by (rule hd_dropWhile)
  then show "last (strip_chars cs d) \<notin> set cs" using ne r by (simp add: last_rev)
  have d1: "?d1 = rev ?r @ rev (takeWhile ?P (rev ?d1))" by (rule rev_drop_take)
  with ne have "?d1 \<noteq> []" by (metis append_is_Nil_conv rev_is_Nil_conv)
  then have "\<not> ?P (hd ?d1)" by (rule hd_dropWhile)
  moreover have "hd ?d1 = hd (rev ?r)" using d1 ne by (metis hd_append2 rev_is_Nil_conv)
  ultimately show "hd (strip_chars cs d) \<notin> set cs" using r by simp
qed

lemma strip_chars_id:
  assumes "d = [] \<or> (hd d \<notin> set cs \<and> last d \<notin> set cs)"
  shows "strip_chars cs d = d"
proof (cases d)
  case Nil then show ?thesis by (simp add: strip_chars_def)
next
  case (Cons a as)
  with assms have h: "a \<notin> set cs" and l: "last d \<notin> set cs" by auto
  from h Cons have 1: "dropWhile (\<lambda>c. c \<in> set cs) d = d" by simp
  from Cons have "rev d \<noteq> []" by simp
  then obtain b bs where rb: "rev d = b # bs" by (cases "rev d") auto
  from Cons have "hd (rev d) = last d" by (simp add: hd_rev)
  with rb have "b = last d" by simp
  with l have "b \<notin> set cs" by simp
  with rb have 2: "dropWhile (\<lambda>c. c \<in> set cs) (rev d) = rev d" by simp
  show ?thesis by (simp add: strip_chars_def 1 2)
qed

lemma fold_strip_chars_id:
  "\<forall>cs\<in>set css. d = [] \<or> (hd d \<notin> set cs \<and> last d \<notin> set cs) \<Longrightarrow> fold strip_chars css d = d"
proof (induction css)
  case Nil
  then show ?case by simp
next
  case (Cons cs css)
  from Cons.prems have "d = [] \<or> (hd d \<notin> set cs \<and> last d \<notin> set cs)" by auto
  then have "strip_chars cs d = d" by (rule strip_chars_id)
  moreover from Cons.prems have "\<forall>cs\<in>set css. d = [] \<or> (hd d \<notin> set cs \<and> last d \<notin> set cs)"
    by auto
  ultimately show ?case using Cons.IH by simp
qed

lemma test_stripped_id:
  assumes "strip d = [] \<or> (\<not> percent_or_currency (hd (strip d)) \<and> \<not> percent_or_currency (last (strip d)))"
  shows "test_stripped d = strip d"
proof -
  let ?s = "strip d"
  have "\<forall>cs\<in>set (ustr ''%'' # CURRENCY_SYMBOLS). ?s = [] \<or> (hd ?s \<notin> set cs \<and> last ?s \<notin> set cs)"
    using assms unfolding percent_or_currency_def by auto
  then have "fold strip_chars (ustr ''%'' # CURRENCY_SYMBOLS) ?s = ?s"
    by (rule fold_strip_chars_id)
  then show ?thesis by (simp add: test_stripped_def)
qed

subsection \<open>Lower case on ASCII text\<close>

lemma lowers_ascii_ascii_lower: "lowers_ascii ascii_lower"
  by (simp add: lowers_ascii_def)

lemma lowers_asciiD: "lowers_ascii lower \<Longrightarrow> is_ascii d \<Longrightarrow> lower d = ascii_lower d"
  by (simp add: lowers_ascii_def)

subsection \<open>The constructor\<close>

lemma messages_differ: "types_message \<noteq> names_message"
  by (simp add: types_message_def names_message_def ustr_simps)

lemma check_members_None_iff:
  "check_members cts cns grp = None \<longleftrightarrow>
     (\<forall>(k, m)\<in>set grp. member_column_types m = cts \<and> member_column_names m = cns)"
  by (induction cts cns grp rule: check_members.induct) (auto split: if_splits)

lemma check_members_Some:
  "check_members cts cns grp = Some e \<Longrightarrow>
     (e = ValueError types_message \<and> (\<exists>(k, m)\<in>set grp. member_column_types m \<noteq> cts)) \<or>
     (e = ValueError names_message \<and> (\<exists>(k, m)\<in>set grp. member_column_names m \<noteq> cns))"
  by (induction cts cns grp rule: check_members.induct) (auto split: if_splits)

lemma check_members_first_mismatch:
  assumes "\<forall>(k, m)\<in>set pre. member_column_types m = cts \<and> member_column_names m = cns"
    and "member_column_types m \<noteq> cts \<or> member_column_names m \<noteq> cns"
  shows "check_members cts cns (pre @ (k, m) # post) =
           Some (ValueError (if member_column_types m \<noteq> cts then types_message
                             else names_message))"
  using assms by (induction pre) auto

lemma TableSet_init_Inr:
  assumes "TableSet_init grp kn kt = Inr ts"
  shows "grp \<noteq> []" and "key_name ts = kn"
    and "key_type ts = (case kt of None \<Rightarrow> Text | Some t \<Rightarrow> t)"
    and "tables ts = grp"
    and "resolve_sample (snd (hd grp)) = Inr (sample_table ts)"
  using assms
  by (auto simp: TableSet_init_def split: list.splits sum.splits option.splits)

lemma TableSet_init_resolves:
  assumes "TableSet_init grp kn kt = Inr ts"
  shows "resolve_sample (IsTableSet ts) = Inr (sample_table ts)"
proof -
  from assms obtain k0 m0 rest where g: "grp = (k0, m0) # rest"
    by (cases grp) (auto simp: TableSet_init_def)
  from TableSet_init_Inr(5) [OF assms] g have "resolve_sample m0 = Inr (sample_table ts)" by simp
  moreover from TableSet_init_Inr(4) [OF assms] g have "tables ts = (k0, m0) # rest" by simp
  ultimately show ?thesis by (cases ts) simp
qed

text \<open>The example sets are what the constructor builds from their members.\<close>

lemma set_CA_constructed:
  "TableSet_init [(PStr (ustr ''la''), IsTable table_la), (PStr (ustr ''sf''), IsTable table_sf)]
     (ustr ''county'') None = Inr set_CA"
  by (simp add: TableSet_init_def example_defs)

lemma set_NY_constructed:
  "TableSet_init [(PStr (ustr ''nyc''), IsTable table_ny)] (ustr ''county'') None = Inr set_NY"
  by (simp add: TableSet_init_def example_defs)

lemma set_states_constructed:
  "TableSet_init [(PStr (ustr ''CA''), IsTableSet set_CA), (PStr (ustr ''NY''), IsTableSet set_NY)]
     (ustr ''state'') None = Inr set_states"
  by (simp add: TableSet_init_def example_defs)

lemma set_years_constructed:
  "TableSet_init [(PInt 2014, IsTable table_la), (PInt 2015, IsTable table_sf)]
     (ustr ''year'') (Some Number) = Inr set_years"
  by (simp add: TableSet_init_def example_defs)

subsection \<open>Aggregation\<close>



lemma aggregate_columns_names:
  "aggregate_columns sample aggs = Inr (ns, tys) \<Longrightarrow>
   ns = map (\<lambda>(column_name, agg, new_column_name). new_column_name) aggs \<and> length tys = length aggs"
  by (induction aggs arbitrary: ns tys) (auto split: sum.splits)


lemma nested_loop_sets:
  "\<forall>(k, s)\<in>set inner. TableSet__aggregate s aggs = Inr (res s) \<Longrightarrow>
   nested_loop (map (\<lambda>(k, s). (k, IsTableSet s)) inner) aggs cols out =
     Inr (if inner = [] then (fst cols, snd cols, out)
          else (fst (res (snd (last inner))), fst (snd (res (snd (last inner)))),
                out @ concat (map (\<lambda>(k, s). map ((#) k) (snd (snd (res s)))) inner)))"
proof (induction inner arbitrary: cols out)
  case Nil
  then show ?case by simp
next
  case (Cons a inner)
  obtain k s where a: "a = (k, s)" by (cases a)
  obtain names types nested where r: "res s = (names, types, nested)" by (cases "res s")
  from Cons.prems a r have s: "TableSet__aggregate s aggs = Inr (names, types, nested)" by simp
  from Cons.prems have "\<forall>(k, s)\<in>set inner. TableSet__aggregate s aggs = Inr (res s)" by simp
  note IH = Cons.IH [OF this, of "(names, types)" "out @ map ((#) k) nested"]
  show ?case
    by (simp add: a s IH r)
qed

lemma TableSet__aggregate_nested:
  assumes "tables ts = map (\<lambda>(k, s). (k, IsTableSet s)) inner" and "inner \<noteq> []"
    and "\<forall>(k, s)\<in>set inner. TableSet__aggregate s aggs = Inr (res s)"
  shows "TableSet__aggregate ts aggs =
           Inr (key_name ts # fst (res (snd (last inner))),
                key_type ts # fst (snd (res (snd (last inner)))),
                concat (map (\<lambda>(k, s). map ((#) k) (snd (snd (res s)))) inner))"
proof (cases ts)
  case (TableSet kn kt sample cts cns ms)
  from assms(2) obtain k0 s0 rest where inner: "inner = (k0, s0) # rest"
    by (cases inner) auto
  with assms(1) TableSet have ms: "ms = (k0, IsTableSet s0) # map (\<lambda>(k, s). (k, IsTableSet s)) rest"
    by simp
  note nested_loop_sets [OF assms(3), of "([], [])" "[]"]
  then have "nested_loop ((k0, IsTableSet s0) # map (\<lambda>(k, s). (k, IsTableSet s)) rest) aggs ([], []) [] =
     Inr (fst (res (snd (last inner))), fst (snd (res (snd (last inner)))),
          concat (map (\<lambda>(k, s). map ((#) k) (snd (snd (res s)))) inner))"
    using inner by simp
  then show ?thesis using TableSet ms by simp
qed

lemma aggregate_lengths:
  "TableSet__aggregate ts aggs = Inr (names, types, out) \<Longrightarrow> length names = length types"
  "nested_loop ms aggs cols acc = Inr (names, types, out) \<Longrightarrow>
     length (fst cols) = length (snd cols) \<Longrightarrow> length names = length types"
proof (induction ts aggs and ms aggs cols acc arbitrary: names types out and names types out
       rule: TableSet__aggregate_nested_loop.induct)
  case (1 kn kt sample cts cns aggs)
  then show ?case by simp
next
  case (2 kn kt sample cts cns k0 s0 ms aggs)
  from "2.prems" obtain ns tys where
    n: "nested_loop ((k0, IsTableSet s0) # ms) aggs ([], []) [] = Inr (ns, tys, out)"
    and e: "names = kn # ns" "types = kt # tys"
    by (auto split: sum.splits)
  from "2.IH" [OF n] have "length ns = length tys" by simp
  with e show ?case by simp
next
  case (3 kn kt sample cts cns k0 t0 ms aggs)
  from "3.prems" obtain ns tys where
    c: "aggregate_columns sample aggs = Inr (ns, tys)" and e: "names = kn # ns" "types = kt # tys"
    by (auto split: sum.splits)
  from aggregate_columns_names [OF c] e show ?case by simp
next
  case (4 aggs cols acc)
  then show ?case by auto
next
  case (5 key t rest aggs cols acc)
  then show ?case by simp
next
  case (6 key s rest aggs cols acc)
  from "6.prems"(1) obtain ns tys nested where
    a: "TableSet__aggregate s aggs = Inr (ns, tys, nested)"
    and l: "nested_loop rest aggs (ns, tys) (acc @ map ((#) key) nested) = Inr (names, types, out)"
    by (auto split: sum.splits)
  from "6.IH"(1) [OF a] have "length ns = length tys" .
  with "6.IH"(2) [OF a refl refl l] show ?case by simp
qed

subsection \<open>Construction of a table\<close>




lemma Table_fork_repeated_name:
  assumes "length names = length tys" and "\<not> distinct names"
  shows "Table_fork cast self new_rows (zip names tys) = Inl (ValueError duplicate_names_message)"
  using assms by (simp add: Table_fork_def)

section \<open>Claims about \<open>Number\<close>\<close>

text \<open>
  C3.  On text that is not a null value \<open>cast\<close> strips white space and nothing else
  before it parses: the parser receives \<open>strip d\<close>, and its failure becomes a
  \<open>CastError\<close> whose message shows that text.  Percent signs and currency symbols
  stay, so with the \<open>en_US\<close> parser \<open>test\<close> accepts \<open>45%\<close> and \<open>$1,234.00\<close> while
  \<open>cast\<close> raises \<open>CastError\<close> on both.  The first part holds for every lower-case
  method and parser, the second for every lower-case method that is \<open>d.lower()\<close>
  on ASCII text.
\<close>

theorem cast_parses_trimmed_text:
  "(lower (strip d) \<notin> set (null_values self) \<longrightarrow>
      Number_cast lower p self (PStr d) =
        (case p (number_locale self) (PStr (strip d)) of
           Inr v \<Rightarrow> Inr (Some v)
         | Inl e \<Rightarrow> Inl (CastError (ParseMessage (PStr (strip d)))))) \<and>
   (lowers_ascii lower \<longrightarrow>
      Number_test lower parse_decimal number_en_US (ustr ''45%'') \<and>
      Number_cast lower parse_decimal number_en_US (PStr (ustr ''45%'')) =
        Inl (CastError (ParseMessage (PStr (ustr ''45%'')))) \<and>
      Number_test lower parse_decimal number_en_US (ustr ''$1,234.00'') \<and>
      Number_cast lower parse_decimal number_en_US (PStr (ustr ''$1,234.00'')) =
        Inl (CastError (ParseMessage (PStr (ustr ''$1,234.00'')))))"
proof (intro conjI impI)
  assume "lower (strip d) \<notin> set (null_values self)"
  then show "Number_cast lower p self (PStr d) =
        (case p (number_locale self) (PStr (strip d)) of
           Inr v \<Rightarrow> Inr (Some v)
         | Inl e \<Rightarrow> Inl (CastError (ParseMessage (PStr (strip d)))))"
    by (simp add: cast_parse_def split: sum.splits)
next
  assume l: "lowers_ascii lower"
  note low = lowers_asciiD [OF l]
  show "Number_test lower parse_decimal number_en_US (ustr ''45%'')"
    by (simp add: eval_defs low is_ascii_def)
  show "Number_cast lower parse_decimal number_en_US (PStr (ustr ''45%'')) =
     Inl (CastError (ParseMessage (PStr (ustr ''45%''))))"
    by (simp add: eval_defs low is_ascii_def)
  show "Number_test lower parse_decimal number_en_US (ustr ''$1,234.00'')"
    by (simp add: eval_defs low is_ascii_def)
  show "Number_cast lower parse_decimal number_en_US (PStr (ustr ''$1,234.00'')) =
     Inl (CastError (ParseMessage (PStr (ustr ''$1,234.00''))))"
    by (simp add: eval_defs low is_ascii_def)
qed

theorem cast_parses_trimmed_text_witness:
  "ascii_lower (strip (ustr '' 45% '')) \<notin> set (null_values number_en_US) \<and>
   lowers_ascii ascii_lower \<and>
   Number_cast ascii_lower parse_decimal number_en_US (PStr (ustr '' 45% '')) =
     Inl (CastError (ParseMessage (PStr (ustr ''45%'')))) \<and>
   Number_test ascii_lower parse_decimal number_en_US (ustr ''45%'')"
proof -
  have h: "ascii_lower (strip (ustr '' 45% '')) \<notin> set (null_values number_en_US)"
    by (simp add: eval_defs)
  have l: "lowers_ascii ascii_lower"
    by (simp add: lowers_ascii_def)
  have s: "strip (ustr '' 45% '') = ustr ''45%''"
    by (simp add: ustr_simps strip_def isspace_def)
  have p: "parse_decimal (number_locale number_en_US) (PStr (ustr ''45%'')) = Inl NumberFormatError"
    by (simp add: eval_defs)
  note c = cast_parses_trimmed_text [of ascii_lower "ustr '' 45% ''" number_en_US parse_decimal]
  from c h
  have "Number_cast ascii_lower parse_decimal number_en_US (PStr (ustr '' 45% '')) =
        (case parse_decimal (number_locale number_en_US) (PStr (strip (ustr '' 45% ''))) of
           Inr v \<Rightarrow> Inr (Some v)
         | Inl e \<Rightarrow> Inl (CastError (ParseMessage (PStr (strip (ustr '' 45% ''))))))"
    by blast
  then have "Number_cast ascii_lower parse_decimal number_en_US (PStr (ustr '' 45% '')) =
        Inl (CastError (ParseMessage (PStr (ustr ''45%''))))"
    unfolding s p by simp
  moreover from c l have "Number_test ascii_lower parse_decimal number_en_US (ustr ''45%'')"
    by blast
  ultimately show ?thesis using h l by blast
qed

text \<open>
  C4.  \<open>cast\<close> raises \<open>CastError\<close> on every float, whatever its bits, and whatever
  the lower-case method, the parser and the configuration are.
\<close>

theorem cast_float_raises_CastError:
  "Number_cast lower p self (PFloat x) = Inl (CastError FloatMessage)"
  by simp

text \<open>
  C5, amended.  When the white-space-trimmed, lower-cased text is one of the
  configured null values, \<open>cast\<close> returns \<open>None\<close>; \<open>test\<close> returns true when, in
  addition, the trimmed text neither begins nor ends with a percent sign or a
  currency symbol (\<open>test\<close> looks for the null value only after it has stripped
  those).  This holds for every lower-case method, that of Unicode among them.
\<close>

theorem null_sentinel_cast_and_test:
  assumes "lower (strip d) \<in> set (null_values self)"
  shows "Number_cast lower p self (PStr d) = Inr None \<and>
         ((strip d = [] \<or> (\<not> percent_or_currency (hd (strip d)) \<and> \<not> percent_or_currency (last (strip d))))
            \<longrightarrow> Number_test lower p self d)"
  using assms by (simp add: Number_test_def test_stripped_id)

theorem null_sentinel_cast_and_test_witness:
  "ascii_lower (strip (ustr '' N/A '')) \<in> set (null_values number_en_US) \<and>
   Number_cast ascii_lower parse_decimal number_en_US (PStr (ustr '' N/A '')) = Inr None \<and>
   Number_test ascii_lower parse_decimal number_en_US (ustr '' N/A '')"
proof -
  have s: "strip (ustr '' N/A '') = ustr ''N/A''"
    by (simp add: ustr_simps strip_def isspace_def)
  have h: "ascii_lower (strip (ustr '' N/A '')) \<in> set (null_values number_en_US)"
    by (simp add: s) (simp add: ustr_simps ascii_lower_def lower_char_def number_en_US_def)
  have e: "\<not> percent_or_currency (hd (strip (ustr '' N/A ''))) \<and>
           \<not> percent_or_currency (last (strip (ustr '' N/A '')))"
    by (simp add: s) (simp add: ustr_simps percent_or_currency_def CURRENCY_SYMBOLS_def)
  from null_sentinel_cast_and_test
         [of ascii_lower "ustr '' N/A ''" number_en_US parse_decimal, OF h] h e
  show ?thesis by blast
qed

text \<open>
  C5 as stated fails when a null value carries a currency symbol: with \<open>$-\<close> as
  the only null value, the text \<open>$-\<close> is a null value, yet \<open>test\<close> strips the
  dollar sign, finds that \<open>-\<close> is neither a null value nor a number, and returns
  false.  The text has no letter, so that \<open>d.lower()\<close> is \<open>ascii_lower\<close> on it.
\<close>

theorem test_rejects_decorated_null_sentinel:
  "ascii_lower (strip (ustr ''$-'')) \<in>
     set (null_values \<lparr>number_locale = ustr ''en_US'', null_values = [ustr ''$-'']\<rparr>) \<and>
   Number_cast ascii_lower parse_decimal
     \<lparr>number_locale = ustr ''en_US'', null_values = [ustr ''$-'']\<rparr> (PStr (ustr ''$-'')) = Inr None \<and>
   \<not> Number_test ascii_lower parse_decimal
     \<lparr>number_locale = ustr ''en_US'', null_values = [ustr ''$-'']\<rparr> (ustr ''$-'')"
  by (simp add: eval_defs)

text \<open>
  C6, amended.  After trimming white space \<open>test\<close> strips every leading and every
  trailing percent sign: what it removes from the two ends consists of percent signs
  only, what is left neither begins nor ends with one, and that is the text the
  currency stripping, the null check and the parser work on.
\<close>

theorem test_strips_every_percent_sign:
  "(\<exists>pre suf. strip d = pre @ strip_chars (ustr ''%'') (strip d) @ suf \<and>
       set pre \<subseteq> set (ustr ''%'') \<and> set suf \<subseteq> set (ustr ''%'')) \<and>
   (strip_chars (ustr ''%'') (strip d) \<noteq> [] \<longrightarrow>
       hd (strip_chars (ustr ''%'') (strip d)) \<notin> set (ustr ''%'') \<and>
       last (strip_chars (ustr ''%'') (strip d)) \<notin> set (ustr ''%'')) \<and>
   test_stripped d = fold strip_chars CURRENCY_SYMBOLS (strip_chars (ustr ''%'') (strip d)) \<and>
   (Number_test lower p self d \<longleftrightarrow>
      lower (test_stripped d) \<in> set (null_values self) \<or>
      (\<exists>v. p (number_locale self) (PStr (test_stripped d)) = Inr v))"
proof (intro conjI impI)
  show "\<exists>pre suf. strip d = pre @ strip_chars (ustr ''%'') (strip d) @ suf \<and>
       set pre \<subseteq> set (ustr ''%'') \<and> set suf \<subseteq> set (ustr ''%'')"
    by (rule strip_chars_split)
next
  assume "strip_chars (ustr ''%'') (strip d) \<noteq> []"
  then show "hd (strip_chars (ustr ''%'') (strip d)) \<notin> set (ustr ''%'')"
    and "last (strip_chars (ustr ''%'') (strip d)) \<notin> set (ustr ''%'')"
    by (rule strip_chars_ends)+
next
  show "test_stripped d = fold strip_chars CURRENCY_SYMBOLS (strip_chars (ustr ''%'') (strip d))"
    by (simp add: test_stripped_def)
next
  show "Number_test lower p self d \<longleftrightarrow>
      lower (test_stripped d) \<in> set (null_values self) \<or>
      (\<exists>v. p (number_locale self) (PStr (test_stripped d)) = Inr v)"
    by (auto simp: Number_test_def Let_def split: sum.splits)
qed

theorem test_strips_every_percent_sign_witness:
  "strip_chars (ustr ''%'') (strip (ustr ''50%%'')) \<noteq> [] \<and>
   last (strip_chars (ustr ''%'') (strip (ustr ''50%%''))) \<notin> set (ustr ''%'') \<and>
   strip_chars (ustr ''%'') (strip (ustr ''50%%'')) = ustr ''50''"
proof -
  have e: "strip_chars (ustr ''%'') (strip (ustr ''50%%'')) = ustr ''50''"
    by (simp add: eval_defs)
  then have h: "strip_chars (ustr ''%'') (strip (ustr ''50%%'')) \<noteq> []"
    by (simp add: ustr_simps)
  from test_strips_every_percent_sign [of "ustr ''50%%''"] h e show ?thesis by blast
qed

text \<open>
  C6 as stated fails on \<open>50%%\<close>: both percent signs go, where stripping a single
  one would leave \<open>50%\<close>.
\<close>

theorem test_strips_both_percent_signs:
  "strip_chars (ustr ''%'') (strip (ustr ''50%%'')) = ustr ''50'' \<and>
   spec_strip_single_percent (strip (ustr ''50%%'')) = ustr ''50%'' \<and>
   strip_chars (ustr ''%'') (strip (ustr ''50%%'')) \<noteq> spec_strip_single_percent (strip (ustr ''50%%'')) \<and>
   test_stripped (ustr ''50%%'') = ustr ''50''"
  by (simp add: eval_defs spec_strip_single_percent_def)

text \<open>
  C9.  A failure of \<open>cast\<close> should always be a \<open>CastError\<close>.  On a tuple of two
  elements the parser fails, the handler formats its message with the tuple as the
  argument list of \<open>%\<close>, and the \<open>TypeError\<close> of that formatting is what leaves
  \<open>cast\<close>.
\<close>

theorem cast_tuple_raises_TypeError:
  "Number_cast lower parse_decimal number_en_US (PTuple [PInt 1, PInt 2]) = Inl TypeError"
  by (simp add: eval_defs)

text \<open>
  Apart from tuples whose length is not one, every failure of \<open>cast\<close> is a
  \<open>CastError\<close>.
\<close>

lemma cast_failure_kinds:
  assumes "Number_cast lower p self d = Inl e"
  shows "(\<exists>m. e = CastError m) \<or> (\<exists>xs. d = PTuple xs \<and> length xs \<noteq> 1 \<and> e = TypeError)"
proof (cases d)
  case (PTuple xs)
  show ?thesis
  proof (cases xs)
    case Nil
    with PTuple assms show ?thesis by (auto simp: cast_parse_def split: sum.splits)
  next
    case (Cons x ys)
    with PTuple assms show ?thesis
      by (cases ys) (auto simp: cast_parse_def split: sum.splits)
  qed
qed (use assms in \<open>auto simp: cast_parse_def Let_def split: sum.splits if_splits\<close>)

section \<open>Claims about \<open>TableSet\<close>\<close>



text \<open>
  C2.  Let the group have a first member, which resolves to the sample table.  If
  some direct member's column types or column names differ from the sample's,
  construction raises a \<open>ValueError\<close> whose message names types or names, and some
  member does differ in the aspect named; it is the first differing member that
  decides, its types being looked at before its names.  If all members have the
  sample's types and names, construction succeeds and iteration yields the keys of
  the group in their order.
\<close>

theorem init_checks_schema_of_members:
  assumes "grp = (k0, m0) # rest" and "resolve_sample m0 = Inr sample"
  shows "((\<exists>(k, m)\<in>set grp. member_column_types m \<noteq> column_types sample \<or>
                          member_column_names m \<noteq> column_names sample) \<longrightarrow>
            (TableSet_init grp kn kt = Inl (ValueError types_message) \<and>
               (\<exists>(k, m)\<in>set grp. member_column_types m \<noteq> column_types sample)) \<or>
            (TableSet_init grp kn kt = Inl (ValueError names_message) \<and>
               (\<exists>(k, m)\<in>set grp. member_column_names m \<noteq> column_names sample))) \<and>
         (\<forall>pre k m post.
            grp = pre @ (k, m) # post \<and>
            (\<forall>(k', m')\<in>set pre. member_column_types m' = column_types sample \<and>
                                member_column_names m' = column_names sample) \<and>
            (member_column_types m \<noteq> column_types sample \<or>
             member_column_names m \<noteq> column_names sample) \<longrightarrow>
            TableSet_init grp kn kt =
              Inl (ValueError (if member_column_types m \<noteq> column_types sample
                               then types_message else names_message))) \<and>
         ((\<forall>(k, m)\<in>set grp. member_column_types m = column_types sample \<and>
                          member_column_names m = column_names sample) \<longrightarrow>
            (\<exists>ts. TableSet_init grp kn kt = Inr ts \<and> TableSet_iter ts = map fst grp \<and>
                  tables ts = grp \<and> key_name ts = kn \<and> sample_table ts = sample)) \<and>
         types_message \<noteq> names_message"
proof -
  let ?c = "check_members (column_types sample) (column_names sample) grp"
  have init: "TableSet_init grp kn kt =
      (case ?c of Some e \<Rightarrow> Inl e
       | None \<Rightarrow> Inr (TableSet kn (case kt of None \<Rightarrow> Text | Some t \<Rightarrow> t) sample
                        (column_types sample) (column_names sample) grp))"
    using assms by (auto simp: TableSet_init_def split: option.splits)
  have some: "(TableSet_init grp kn kt = Inl (ValueError types_message) \<and>
               (\<exists>(k, m)\<in>set grp. member_column_types m \<noteq> column_types sample)) \<or>
            (TableSet_init grp kn kt = Inl (ValueError names_message) \<and>
               (\<exists>(k, m)\<in>set grp. member_column_names m \<noteq> column_names sample))"
    if "\<exists>(k, m)\<in>set grp. member_column_types m \<noteq> column_types sample \<or>
                          member_column_names m \<noteq> column_names sample"
  proof -
    from that have "?c \<noteq> None" by (auto simp: check_members_None_iff)
    then obtain e where e: "?c = Some e" by auto
    from check_members_Some [OF e] init e show ?thesis by auto
  qed
  have first: "TableSet_init grp kn kt =
              Inl (ValueError (if member_column_types m \<noteq> column_types sample
                               then types_message else names_message))"
    if "grp = pre @ (k, m) # post"
      and "\<forall>(k', m')\<in>set pre. member_column_types m' = column_types sample \<and>
                                member_column_names m' = column_names sample"
      and "member_column_types m \<noteq> column_types sample \<or>
           member_column_names m \<noteq> column_names sample"
    for pre k m post
  proof -
    from check_members_first_mismatch [OF that(2,3), of k post] that(1)
    have "?c = Some (ValueError (if member_column_types m \<noteq> column_types sample
                                 then types_message else names_message))"
      by simp
    with init show ?thesis by simp
  qed
  have none: "\<exists>ts. TableSet_init grp kn kt = Inr ts \<and> TableSet_iter ts = map fst grp \<and>
                  tables ts = grp \<and> key_name ts = kn \<and> sample_table ts = sample"
    if "\<forall>(k, m)\<in>set grp. member_column_types m = column_types sample \<and>
                          member_column_names m = column_names sample"
  proof -
    from that have "?c = None" by (simp add: check_members_None_iff)
    with init show ?thesis by (simp add: TableSet_iter_def)
  qed
  from some first none messages_differ show ?thesis by blast
qed

theorem init_checks_schema_of_members_witness:
  "TableSet_init [(PStr (ustr ''la''), IsTable table_la), (PStr (ustr ''x''), IsTable table_texts)]
     (ustr ''county'') None = Inl (ValueError types_message) \<and>
   TableSet_init [(PStr (ustr ''la''), IsTable table_la), (PStr (ustr ''x''), IsTable table_other)]
     (ustr ''county'') None = Inl (ValueError names_message) \<and>
   (\<exists>ts. TableSet_init
           [(PStr (ustr ''CA''), IsTableSet set_CA), (PStr (ustr ''NY''), IsTableSet set_NY)]
           (ustr ''state'') None = Inr ts \<and>
         TableSet_iter ts = [PStr (ustr ''CA''), PStr (ustr ''NY'')])"
proof -
  let ?both = "[(PStr (ustr ''la''), IsTable table_la), (PStr (ustr ''x''), IsTable table_texts)]"
  let ?bad = "[(PStr (ustr ''la''), IsTable table_la), (PStr (ustr ''x''), IsTable table_other)]"
  let ?good = "[(PStr (ustr ''CA''), IsTableSet set_CA), (PStr (ustr ''NY''), IsTableSet set_NY)]"
  have s: "resolve_sample (IsTable table_la) = Inr table_la" by simp
  have a1: "?both = (PStr (ustr ''la''), IsTable table_la) # [(PStr (ustr ''x''), IsTable table_texts)]"
    by simp
  have a2: "?both = [(PStr (ustr ''la''), IsTable table_la)] @
                      (PStr (ustr ''x''), IsTable table_texts) # []"
    by simp
  have a3: "\<forall>(k', m')\<in>set [(PStr (ustr ''la''), IsTable table_la)].
              member_column_types m' = column_types table_la \<and>
              member_column_names m' = column_names table_la"
    by simp
  have a4: "member_column_types (IsTable table_texts) \<noteq> column_types table_la"
    by (simp add: example_defs)
  from init_checks_schema_of_members [OF a1 s, of "ustr ''county''" None] a2 a3 a4
  have "TableSet_init ?both (ustr ''county'') None =
          Inl (ValueError (if member_column_types (IsTable table_texts) \<noteq> column_types table_la
                           then types_message else names_message))"
    by blast
  with a4 have both: "TableSet_init ?both (ustr ''county'') None = Inl (ValueError types_message)"
    by simp
  have b1: "?bad = (PStr (ustr ''la''), IsTable table_la) # [(PStr (ustr ''x''), IsTable table_other)]"
    by simp
  have b3: "\<exists>(k, m)\<in>set ?bad. member_column_types m \<noteq> column_types table_la \<or>
                             member_column_names m \<noteq> column_names table_la"
    by (simp add: example_defs ustr_simps)
  have b4: "\<not> (\<exists>(k, m)\<in>set ?bad. member_column_types m \<noteq> column_types table_la)"
    by (simp add: example_defs)
  from init_checks_schema_of_members [OF b1 s, of "ustr ''county''" None] b3 b4
  have bad: "TableSet_init ?bad (ustr ''county'') None = Inl (ValueError names_message)"
    by blast
  have g1: "?good = (PStr (ustr ''CA''), IsTableSet set_CA) # [(PStr (ustr ''NY''), IsTableSet set_NY)]"
    by simp
  have g2: "resolve_sample (IsTableSet set_CA) = Inr table_la" by (simp add: set_CA_def)
  have g3: "\<forall>(k, m)\<in>set ?good. member_column_types m = column_types table_la \<and>
                              member_column_names m = column_names table_la"
    by (simp add: example_defs)
  from init_checks_schema_of_members [OF g1 g2, of "ustr ''state''" None] g3
  have "\<exists>ts. TableSet_init ?good (ustr ''state'') None = Inr ts \<and> TableSet_iter ts = map fst ?good"
    by blast
  then have good: "\<exists>ts. TableSet_init ?good (ustr ''state'') None = Inr ts \<and>
                        TableSet_iter ts = [PStr (ustr ''CA''), PStr (ustr ''NY'')]"
    by simp
  from both bad good show ?thesis by blast
qed

text \<open>
  C7, amended.  Constructing a table set from a group with no member fails with the
  \<open>IndexError\<close> of \<open>list(group.values())[0]\<close>; no check of its own comes before.
\<close>

theorem init_empty_group_IndexError: "TableSet_init [] kn kt = Inl IndexError"
  by (simp add: TableSet_init_def)

text \<open>
  C7 as stated fails: with the default key name and key type the error is that
  \<open>IndexError\<close>.
\<close>

theorem init_empty_group_default_key_IndexError: "TableSet_init [] default_key_name None = Inl IndexError"
  by (simp add: TableSet_init_def)



text \<open>
  Two cases in which the construction of the aggregated table fails.  A nested set
  whose aggregated names contain the outer key name, as when both levels keep the
  default key name, repeats a column name; and a key that does not cast under the
  key type, as a text that is no number under \<open>Number\<close>, raises what its cast raises.
\<close>

lemma aggregate_repeated_key_name:
  assumes "tables ts = map (\<lambda>(k, s). (k, IsTableSet s)) inner" and "inner \<noteq> []"
    and "\<forall>(k, s)\<in>set inner. TableSet__aggregate s aggs = Inr (res s)"
    and "key_name ts \<in> set (fst (res (snd (last inner))))"
  shows "TableSet_aggregate cast ts aggs = Inl (ValueError duplicate_names_message)"
proof -
  obtain kl sl where l: "last inner = (kl, sl)" by (cases "last inner")
  obtain ns tys out where r: "res sl = (ns, tys, out)" by (cases "res sl")
  have "last inner \<in> set inner" using assms(2) by simp
  with assms(3) l r have "TableSet__aggregate sl aggs = Inr (ns, tys, out)" by auto
  then have "length ns = length tys" by (rule aggregate_lengths(1))
  then have "Table_fork cast (sample_table ts)
               (concat (map (\<lambda>(k, s). map ((#) k) (snd (snd (res s)))) inner))
               (zip (key_name ts # ns) (key_type ts # tys)) =
             Inl (ValueError duplicate_names_message)"
    using assms(4) l r by (intro Table_fork_repeated_name) simp_all
  with TableSet__aggregate_nested [OF assms(1-3)] l r show ?thesis
    by (simp add: TableSet_aggregate_def)
qed

lemma aggregate_default_key_names_example:
  "TableSet_aggregate example_cast
     (TableSet default_key_name Text table_la [Text, Number] [ustr ''name'', ustr ''population'']
        [(PStr (ustr ''CA''),
          IsTableSet (TableSet default_key_name Text table_la [Text, Number]
                        [ustr ''name'', ustr ''population'']
                        [(PStr (ustr ''la''), IsTable table_la)]))]) [] =
   Inl (ValueError duplicate_names_message)"
  by (simp add: TableSet_aggregate_def Table_fork_def)

lemma aggregate_key_not_a_number_example:
  "TableSet_aggregate example_cast
     (TableSet (ustr ''county'') Number table_la [Text, Number] [ustr ''name'', ustr ''population'']
        [(PStr (ustr ''la''), IsTable table_la)]) [] =
   Inl (CastError (ParseMessage (PStr (ustr ''la''))))"
  by (simp add: TableSet_aggregate_def Table_fork_def example_cast_def eval_defs)

text \<open>
  C10.  Whatever the key type of a table set, the table set a proxied method returns
  has the same key name and the key type \<open>Text\<close>.
\<close>

theorem proxy_call_key_type_is_Text:
  assumes "TableMethodProxy_call method ts = Inr ts'"
  shows "key_name ts' = key_name ts \<and> key_type ts' = Text"
proof (cases ts)
  case (TableSet kn kt sample cts cns ms)
  with assms obtain groups where "TableSet_init groups kn None = Inr ts'"
    by (auto split: sum.splits)
  from TableSet_init_Inr(2,3) [OF this] TableSet show ?thesis by simp
qed

theorem proxy_call_key_type_is_Text_witness:
  "key_type set_years = Number \<and>
   TableMethodProxy_call (limit 1) set_years =
     Inr (TableSet (ustr ''year'') Text (table_la\<lparr>rows := [ [PStr (ustr ''a''), PInt 3] ]\<rparr>)
            [Text, Number] [ustr ''name'', ustr ''population'']
            [(PInt 2014, IsTable (table_la\<lparr>rows := [ [PStr (ustr ''a''), PInt 3] ]\<rparr>)),
             (PInt 2015, IsTable table_sf)]) \<and>
   key_name (TableSet (ustr ''year'') Text (table_la\<lparr>rows := [ [PStr (ustr ''a''), PInt 3] ]\<rparr>)
            [Text, Number] [ustr ''name'', ustr ''population'']
            [(PInt 2014, IsTable (table_la\<lparr>rows := [ [PStr (ustr ''a''), PInt 3] ]\<rparr>)),
             (PInt 2015, IsTable table_sf)]) = key_name set_years \<and>
   key_type (TableSet (ustr ''year'') Text (table_la\<lparr>rows := [ [PStr (ustr ''a''), PInt 3] ]\<rparr>)
            [Text, Number] [ustr ''name'', ustr ''population'']
            [(PInt 2014, IsTable (table_la\<lparr>rows := [ [PStr (ustr ''a''), PInt 3] ]\<rparr>)),
             (PInt 2015, IsTable table_sf)]) = Text"
proof -
  have h: "TableMethodProxy_call (limit 1) set_years =
     Inr (TableSet (ustr ''year'') Text (table_la\<lparr>rows := [ [PStr (ustr ''a''), PInt 3] ]\<rparr>)
            [Text, Number] [ustr ''name'', ustr ''population'']
            [(PInt 2014, IsTable (table_la\<lparr>rows := [ [PStr (ustr ''a''), PInt 3] ]\<rparr>)),
             (PInt 2015, IsTable table_sf)])"
    by (simp add: TableSet_init_def example_defs)
  have k: "key_type set_years = Number" by (simp add: set_years_def)
  from proxy_call_key_type_is_Text [OF h] h k show ?thesis by simp
qed

end
